theory Spec2Isabelle
  imports Main
begin

section \<open>Trajectories, errors and message formatting\<close>

text \<open>
  Modelled from the spec: the trajectory type \<^verbatim>\<open>types.TrajectoryWithRew\<close> lives in
  \<^verbatim>\<open>imitation.data.types\<close>, which is not part of the sources at hand. The
  specification describes it as an ordered sequence of steps, each with an observation, an
  action, the true environment reward, a terminal flag and auxiliary info, whose length is the
  number of steps. The element types are left polymorphic.
\<close>

record ('o, 'a, 'r, 'i) step =
  observation :: 'o
  action :: 'a
  reward :: 'r
  terminal :: bool
  info :: 'i

type_synonym ('o, 'a, 'r, 'i) TrajectoryWithRew = "('o, 'a, 'r, 'i) step list"

definition traj_len :: "('o, 'a, 'r, 'i) TrajectoryWithRew \<Rightarrow> nat" where
  "traj_len traj = length traj"

text \<open>The exceptions raised in \<^verbatim>\<open>trainer.py\<close>, with their messages.\<close>

datatype error = RuntimeError string | ValueError string | AssertionError

text \<open>
  Decimal rendering of integers, as Python's f-strings produce it for \<^verbatim>\<open>int\<close> values.
\<close>

definition digit_char :: "nat \<Rightarrow> char" where
  "digit_char d = ''0123456789'' ! d"

fun str_nat :: "nat \<Rightarrow> string" where
  "str_nat n = (if n < 10 then [digit_char n] else str_nat (n div 10) @ [digit_char (n mod 10)])"

declare str_nat.simps [simp del]

definition str_int :: "int \<Rightarrow> string" where
  "str_int i = (if i < 0 then CHR ''-'' # str_nat (nat (- i)) else str_nat (nat i))"

section \<open>The step-quota selector\<close>

text \<open>
  \<^verbatim>\<open>sum(len(traj) for traj in trajectories)\<close>: a Python integer, hence unbounded.
\<close>

definition sum_len :: "('o, 'a, 'r, 'i) TrajectoryWithRew list \<Rightarrow> int" where
  "sum_len trajectories = sum_list (map (\<lambda>traj. int (traj_len traj)) trajectories)"

text \<open>
  \<^verbatim>\<open>np.cumsum\<close>: the running sums of a list, left to right. The running sums of the
  lengths of sequences held in memory stay far below \<open>2 ^ 63\<close>, so the 64-bit array
  elements are rendered as integers.
\<close>

primrec cumsum_from :: "int \<Rightarrow> int list \<Rightarrow> int list" where
  "cumsum_from acc [] = []"
| "cumsum_from acc (x # xs) = (acc + x) # cumsum_from (acc + x) xs"

definition cumsum :: "int list \<Rightarrow> int list" where
  "cumsum xs = cumsum_from 0 xs"

text \<open>
  \<^verbatim>\<open>ndarray.argmax()\<close>: the index of the first occurrence of the largest element; on an
  empty array numpy raises \<^verbatim>\<open>ValueError\<close>. On a boolean array \<open>False < True\<close>.
\<close>

primrec argmax_scan :: "'a::linorder list \<Rightarrow> nat \<Rightarrow> nat \<Rightarrow> 'a \<Rightarrow> nat" where
  "argmax_scan [] i best_i best = best_i"
| "argmax_scan (x # xs) i best_i best =
     (if best < x then argmax_scan xs (Suc i) i x else argmax_scan xs (Suc i) best_i best)"

definition argmax :: "'a::linorder list \<Rightarrow> error + nat" where
  "argmax xs =
     (case xs of
        [] \<Rightarrow> Inl (ValueError ''attempt to get an argmax of an empty sequence'')
      | x # rest \<Rightarrow> Inr (argmax_scan rest 1 0 x))"

text \<open>
  \<^verbatim>\<open>_get_trajectories(trajectories, steps)\<close>. The guard, the cumulative sums, the
  comparison against \<^verbatim>\<open>steps\<close>, \<^verbatim>\<open>argmax\<close>, the slice \<^verbatim>\<open>[: idx + 1]\<close> and the final
  \<^verbatim>\<open>assert\<close> follow the source line by line.
\<close>

definition get_trajectories ::
  "('o, 'a, 'r, 'i) TrajectoryWithRew list \<Rightarrow> int
     \<Rightarrow> error + ('o, 'a, 'r, 'i) TrajectoryWithRew list" where
  "get_trajectories trajectories steps =
     (let available_steps = sum_len trajectories in
      if available_steps < steps then
        Inl (RuntimeError (''Asked for '' @ str_int steps @ '' transitions but only '' @
                           str_int available_steps @ '' available''))
      else
        let steps_cumsum = cumsum (map (\<lambda>traj. int (traj_len traj)) trajectories) in
        case argmax (map (\<lambda>c. steps \<le> c) steps_cumsum) of
          Inl e \<Rightarrow> Inl e
        | Inr idx \<Rightarrow>
            let selected = take (idx + 1) trajectories in
            if steps \<le> sum_len selected then Inr selected else Inl AssertionError)"

section \<open>Trajectory generators\<close>

text \<open>
  \<^verbatim>\<open>TrajectoryGenerator.__init__\<close> evaluates
  \<^verbatim>\<open>custom_logger or imit_logger.configure()\<close>. The logger type is opaque; the logger that
  \<^verbatim>\<open>configure()\<close> would create is a parameter.
\<close>

definition init_logger :: "'lg \<Rightarrow> 'lg option \<Rightarrow> 'lg" where
  "init_logger configure custom_logger =
     (case custom_logger of None \<Rightarrow> configure | Some l \<Rightarrow> l)"

text \<open>
  \<^verbatim>\<open>TrajectoryGenerator.train\<close>: the body consists of the docstring only, so the call
  returns \<^verbatim>\<open>None\<close> and touches nothing. The state type is arbitrary: every variant that
  does not override the method inherits this behaviour.
\<close>

definition TrajectoryGenerator_train :: "int \<Rightarrow> 'kw \<Rightarrow> 's \<Rightarrow> (error + unit) \<times> 's" where
  "TrajectoryGenerator_train steps kwargs self = (Inr (), self)"

subsection \<open>The dataset generator\<close>

text \<open>
  \<^verbatim>\<open>TrajectoryDataset.sample\<close> copies a list object and shuffles the copy in place. To
  tell the copy from the original, Python list objects live in a store: a list object is an
  address, \<open>cells\<close> gives its current contents, and addresses below \<open>next_free\<close> are
  allocated.
\<close>

record 'x store =
  cells :: "nat \<Rightarrow> 'x list"
  next_free :: nat

definition new_list :: "'x list \<Rightarrow> 'x store \<Rightarrow> nat \<times> 'x store" where
  "new_list xs st =
     (next_free st,
      st\<lparr>cells := (cells st)(next_free st := xs), next_free := Suc (next_free st)\<rparr>)"

record ('lg, 'g) TrajectoryDataset =
  ds_logger :: 'lg
  ds_trajectories :: nat
  ds_rng :: 'g

text \<open>
  \<^verbatim>\<open>TrajectoryDataset.__init__\<close>. \<^verbatim>\<open>types.load\<close> and the standard library's
  \<^verbatim>\<open>random.Random\<close> are outside the sources: \<open>load\<close> maps a path to the loaded
  collection (or fails), \<open>Random\<close> maps a seed to an initial generator state.
\<close>

definition TrajectoryDataset_init ::
  "'lg \<Rightarrow> ('p \<Rightarrow> error + 'x list) \<Rightarrow> (int \<Rightarrow> 'g) \<Rightarrow> 'p \<Rightarrow> int \<Rightarrow> 'lg option \<Rightarrow> 'x store
     \<Rightarrow> (error + ('lg, 'g) TrajectoryDataset) \<times> 'x store" where
  "TrajectoryDataset_init configure load Random path seed custom_logger st =
     (let lg = init_logger configure custom_logger in
      case load path of
        Inl e \<Rightarrow> (Inl e, st)
      | Inr loaded \<Rightarrow>
          let (a, st') = new_list loaded st in
          (Inr \<lparr>ds_logger = lg, ds_trajectories = a, ds_rng = Random seed\<rparr>, st'))"

text \<open>
  \<^verbatim>\<open>TrajectoryDataset.sample\<close>. \<^verbatim>\<open>list(self._trajectories)\<close> allocates a new list
  object with the same contents; \<^verbatim>\<open>self.rng.shuffle\<close> overwrites the contents of that
  object and advances the generator; \<open>shuffle\<close> (the standard library's method) is a
  parameter giving the shuffled contents and the next generator state. The generator has
  advanced even when the selector then raises.
\<close>

definition TrajectoryDataset_sample ::
  "('g \<Rightarrow> ('o, 'a, 'r, 'i) TrajectoryWithRew list
       \<Rightarrow> ('o, 'a, 'r, 'i) TrajectoryWithRew list \<times> 'g)
     \<Rightarrow> int \<Rightarrow> ('lg, 'g) TrajectoryDataset \<Rightarrow> ('o, 'a, 'r, 'i) TrajectoryWithRew store
     \<Rightarrow> (error + ('o, 'a, 'r, 'i) TrajectoryWithRew list)
         \<times> ('lg, 'g) TrajectoryDataset \<times> ('o, 'a, 'r, 'i) TrajectoryWithRew store" where
  "TrajectoryDataset_sample shuffle steps self st =
     (let (trajectories, st1) = new_list (cells st (ds_trajectories self)) st;
          (shuffled, rng') = shuffle (ds_rng self) (cells st1 trajectories);
          st2 = st1\<lparr>cells := (cells st1)(trajectories := shuffled)\<rparr>;
          self' = self\<lparr>ds_rng := rng'\<rparr>
      in (get_trajectories (cells st2 trajectories) steps, self', st2))"

text \<open>\<^verbatim>\<open>TrajectoryDataset\<close> does not override \<^verbatim>\<open>train\<close>.\<close>

definition TrajectoryDataset_train ::
  "int \<Rightarrow> 'kw \<Rightarrow> ('lg, 'g) TrajectoryDataset \<times> 'x store
     \<Rightarrow> (error + unit) \<times> ('lg, 'g) TrajectoryDataset \<times> 'x store" where
  "TrajectoryDataset_train = TrajectoryGenerator_train"

text \<open>
  A caller issuing one \<^verbatim>\<open>sample\<close> call after the other on the same instance, collecting
  the outcome of each call (a call that raises leaves the instance usable).
\<close>

primrec sample_calls ::
  "('g \<Rightarrow> ('o, 'a, 'r, 'i) TrajectoryWithRew list
       \<Rightarrow> ('o, 'a, 'r, 'i) TrajectoryWithRew list \<times> 'g)
     \<Rightarrow> int list \<Rightarrow> ('lg, 'g) TrajectoryDataset \<Rightarrow> ('o, 'a, 'r, 'i) TrajectoryWithRew store
     \<Rightarrow> (error + ('o, 'a, 'r, 'i) TrajectoryWithRew list) list" where
  "sample_calls shuffle [] self st = []"
| "sample_calls shuffle (steps # rest) self st =
     (case TrajectoryDataset_sample shuffle steps self st of
        (r, self', st') \<Rightarrow> r # sample_calls shuffle rest self' st')"

text \<open>
  What the specification says the calls return: each call shuffles the full collection with
  the generator state the previous call left behind.
\<close>

primrec stream_results ::
  "('g \<Rightarrow> ('o, 'a, 'r, 'i) TrajectoryWithRew list
       \<Rightarrow> ('o, 'a, 'r, 'i) TrajectoryWithRew list \<times> 'g)
     \<Rightarrow> 'g \<Rightarrow> ('o, 'a, 'r, 'i) TrajectoryWithRew list \<Rightarrow> int list
     \<Rightarrow> (error + ('o, 'a, 'r, 'i) TrajectoryWithRew list) list" where
  "stream_results shuffle g ts [] = []"
| "stream_results shuffle g ts (steps # rest) =
     get_trajectories (fst (shuffle g ts)) steps
       # stream_results shuffle (snd (shuffle g ts)) ts rest"

subsection \<open>The agent generator\<close>

text \<open>
  Modelled from the spec: the vectorized environment, the two wrappers
  (\<^verbatim>\<open>wrappers.BufferingWrapper\<close>, \<^verbatim>\<open>reward_wrapper.RewardVecEnvWrapper\<close>), the trainable
  agent (\<^verbatim>\<open>base_class.BaseAlgorithm\<close>) and the rollout utility are outside the sources.
  A vectorized environment is a base environment or a wrapper around one. What
  \<^verbatim>\<open>get_env()\<close> returns is \<^verbatim>\<open>None\<close>, some object that is no \<^verbatim>\<open>VecEnv\<close>, or a
  vectorized environment. The agent offers \<^verbatim>\<open>get_env\<close>, \<^verbatim>\<open>set_env\<close>,
  \<^verbatim>\<open>set_logger\<close> and \<^verbatim>\<open>learn\<close>; the first three read or re-point the corresponding
  handle, \<^verbatim>\<open>learn\<close> is a parameter of \<open>AgentTrainer_train\<close>.
\<close>

datatype ('f, 'n) reward_source = RewardFn 'f | RewardNet 'n

datatype ('f, 'n) reward_callable = Function 'f | Predict 'n

datatype ('v, 'f, 'n) vec_env =
    BaseVecEnv 'v
  | Buffering "('v, 'f, 'n) vec_env"
  | RewardVecEnvWrapper "('v, 'f, 'n) vec_env" "('f, 'n) reward_callable"

datatype ('v, 'f, 'n) env_handle = EnvNone | EnvOther | EnvVec "('v, 'f, 'n) vec_env"

record ('v, 'f, 'n, 'lg, 'pol) BaseAlgorithm =
  alg_env :: "('v, 'f, 'n) env_handle"
  alg_logger :: 'lg
  alg_policy :: 'pol

definition get_env :: "('v, 'f, 'n, 'lg, 'pol) BaseAlgorithm \<Rightarrow> ('v, 'f, 'n) env_handle" where
  "get_env algorithm = alg_env algorithm"

definition set_env ::
  "('v, 'f, 'n) vec_env \<Rightarrow> ('v, 'f, 'n, 'lg, 'pol) BaseAlgorithm
     \<Rightarrow> ('v, 'f, 'n, 'lg, 'pol) BaseAlgorithm" where
  "set_env venv algorithm = algorithm\<lparr>alg_env := EnvVec venv\<rparr>"

definition set_logger ::
  "'lg \<Rightarrow> ('v, 'f, 'n, 'lg, 'pol) BaseAlgorithm \<Rightarrow> ('v, 'f, 'n, 'lg, 'pol) BaseAlgorithm" where
  "set_logger lg algorithm = algorithm\<lparr>alg_logger := lg\<rparr>"

text \<open>
  Modelled from the spec: the Buffering Collector. It holds the completed trajectories not
  yet claimed and a count \<^verbatim>\<open>n_transitions\<close> of recorded, undrained transitions; its drain
  operation returns the buffered trajectories, leaves the buffer empty and the count at zero,
  and has no error case.
\<close>

record ('v, 'f, 'n, 'tr) BufferingWrapper =
  bw_venv :: "('v, 'f, 'n) vec_env"
  bw_trajectories :: "'tr list"
  n_transitions :: nat

definition pop_trajectories ::
  "('v, 'f, 'n, 'tr) BufferingWrapper \<Rightarrow> 'tr list \<times> ('v, 'f, 'n, 'tr) BufferingWrapper" where
  "pop_trajectories bw = (bw_trajectories bw, bw\<lparr>bw_trajectories := [], n_transitions := 0\<rparr>)"

text \<open>
  Modelled from the spec: the stopping rule built by \<^verbatim>\<open>rollout.make_sample_until\<close>, kept
  as the pair of bounds it was built from.
\<close>

datatype sample_until = SampleUntil (min_timesteps: "int option") (min_episodes: "int option")

definition make_sample_until :: "int option \<Rightarrow> int option \<Rightarrow> sample_until" where
  "make_sample_until min_ts min_eps = SampleUntil min_ts min_eps"

text \<open>
  The agent generator. The buffering wrapper's mutable contents are held in
  \<open>at_buffering_wrapper\<close>; \<open>at_venv\<close> and the agent's environment handle name the wrapper
  chain built over it. \<open>logged\<close> is the output written so far through
  \<^verbatim>\<open>logger.log\<close>, each message with the logger it went to.
\<close>

record ('v, 'f, 'n, 'lg, 'pol, 'tr) AgentTrainer =
  at_algorithm :: "('v, 'f, 'n, 'lg, 'pol) BaseAlgorithm"
  at_logger :: 'lg
  at_reward_fn :: "('f, 'n) reward_callable"
  at_buffering_wrapper :: "('v, 'f, 'n, 'tr) BufferingWrapper"
  at_venv :: "('v, 'f, 'n) vec_env"
  logged :: "('lg \<times> string) list"

text \<open>The \<^verbatim>\<open>logger\<close> property of \<^verbatim>\<open>AgentTrainer\<close>: inherited getter, overridden setter.\<close>

definition AgentTrainer_logger :: "('v, 'f, 'n, 'lg, 'pol, 'tr) AgentTrainer \<Rightarrow> 'lg" where
  "AgentTrainer_logger self = at_logger self"

definition AgentTrainer_set_logger ::
  "'lg \<Rightarrow> ('v, 'f, 'n, 'lg, 'pol, 'tr) AgentTrainer \<Rightarrow> ('v, 'f, 'n, 'lg, 'pol, 'tr) AgentTrainer" where
  "AgentTrainer_set_logger val self =
     (let self1 = self\<lparr>at_logger := val\<rparr> in
      self1\<lparr>at_algorithm := set_logger (AgentTrainer_logger self1) (at_algorithm self1)\<rparr>)"

text \<open>
  \<^verbatim>\<open>AgentTrainer.__init__\<close>. The agent object belongs to the caller and outlives a failed
  construction, so it is returned next to the outcome. \<^verbatim>\<open>super().__init__\<close> assigns
  \<^verbatim>\<open>self.logger\<close>, which runs the overridden setter and therefore \<^verbatim>\<open>set_logger\<close> on the
  agent; the reward source is adapted; only then is the environment checked.
\<close>

definition AgentTrainer_init ::
  "'lg \<Rightarrow> ('v, 'f, 'n, 'lg, 'pol) BaseAlgorithm \<Rightarrow> ('f, 'n) reward_source \<Rightarrow> 'lg option
     \<Rightarrow> (error + ('v, 'f, 'n, 'lg, 'pol, 'tr) AgentTrainer) \<times> ('v, 'f, 'n, 'lg, 'pol) BaseAlgorithm" where
  "AgentTrainer_init configure algorithm reward_fn custom_logger =
     (let lg = init_logger configure custom_logger;
          algorithm1 = set_logger lg algorithm;
          reward_fn' = (case reward_fn of RewardNet net \<Rightarrow> Predict net | RewardFn f \<Rightarrow> Function f)
      in case get_env algorithm1 of
           EnvVec venv \<Rightarrow>
             (let buffering_wrapper = \<lparr>bw_venv = venv, bw_trajectories = [], n_transitions = 0\<rparr>;
                  wrapped = RewardVecEnvWrapper (Buffering venv) reward_fn';
                  algorithm2 = set_env wrapped algorithm1
              in (Inr \<lparr>at_algorithm = algorithm2, at_logger = lg, at_reward_fn = reward_fn',
                       at_buffering_wrapper = buffering_wrapper, at_venv = wrapped,
                       logged = []\<rparr>,
                  algorithm2))
         | _ \<Rightarrow>
             (Inl (ValueError ''The environment for the agent algorithm must be set.''),
              algorithm1))"

text \<open>
  \<^verbatim>\<open>AgentTrainer.train\<close>. \<open>learn\<close> is the agent's training procedure: it may change
  anything reachable from the generator (the agent, the buffer behind the wrapped
  environment, the log) and may raise. Its return value is dropped.
\<close>

definition AgentTrainer_train ::
  "(int \<Rightarrow> 'kw \<Rightarrow> ('v, 'f, 'n, 'lg, 'pol, 'tr) AgentTrainer
       \<Rightarrow> (error + 'ret) \<times> ('v, 'f, 'n, 'lg, 'pol, 'tr) AgentTrainer)
     \<Rightarrow> int \<Rightarrow> 'kw \<Rightarrow> ('v, 'f, 'n, 'lg, 'pol, 'tr) AgentTrainer
     \<Rightarrow> (error + unit) \<times> ('v, 'f, 'n, 'lg, 'pol, 'tr) AgentTrainer" where
  "AgentTrainer_train learn steps kwargs self =
     (let n = n_transitions (at_buffering_wrapper self) in
      if n \<noteq> 0 then
        (Inl (RuntimeError (''There are '' @ str_int (int n) @ '' transitions left in the buffer. ''
                            @ ''Call AgentTrainer.sample() first to clear them.'')),
         self)
      else
        case learn steps kwargs self of
          (Inl e, self') \<Rightarrow> (Inl e, self')
        | (Inr _, self') \<Rightarrow> (Inr (), self'))"

definition AgentTrainer_pop_trajectories ::
  "('v, 'f, 'n, 'lg, 'pol, 'tr) AgentTrainer
     \<Rightarrow> 'tr list \<times> ('v, 'f, 'n, 'lg, 'pol, 'tr) AgentTrainer" where
  "AgentTrainer_pop_trajectories self =
     (case pop_trajectories (at_buffering_wrapper self) of
        (trajectories, bw') \<Rightarrow> (trajectories, self\<lparr>at_buffering_wrapper := bw'\<rparr>))"

definition logger_log ::
  "string \<Rightarrow> ('v, 'f, 'n, 'lg, 'pol, 'tr) AgentTrainer \<Rightarrow> ('v, 'f, 'n, 'lg, 'pol, 'tr) AgentTrainer" where
  "logger_log msg self = self\<lparr>logged := logged self @ [(AgentTrainer_logger self, msg)]\<rparr>"

definition top_up_message :: "int \<Rightarrow> int \<Rightarrow> string" where
  "top_up_message steps avail_steps =
     ''Requested '' @ str_int steps @ '' transitions but only '' @ str_int avail_steps
       @ '' in buffer. '' @ ''Sampling '' @ str_int (steps - avail_steps)
       @ '' additional transitions.''"

text \<open>
  \<^verbatim>\<open>AgentTrainer.sample\<close>. \<open>generate_trajectories\<close> is the rollout utility applied to
  the agent and the wrapped environment: given the stopping rule it changes the state behind
  the generator and returns its own trajectories, or raises. The source discards that return
  value.
\<close>

definition AgentTrainer_sample ::
  "(sample_until \<Rightarrow> ('v, 'f, 'n, 'lg, 'pol, ('o, 'a, 'r, 'i) TrajectoryWithRew) AgentTrainer
       \<Rightarrow> (error + ('o, 'a, 'r, 'i) TrajectoryWithRew list)
           \<times> ('v, 'f, 'n, 'lg, 'pol, ('o, 'a, 'r, 'i) TrajectoryWithRew) AgentTrainer)
     \<Rightarrow> int \<Rightarrow> ('v, 'f, 'n, 'lg, 'pol, ('o, 'a, 'r, 'i) TrajectoryWithRew) AgentTrainer
     \<Rightarrow> (error + ('o, 'a, 'r, 'i) TrajectoryWithRew list)
         \<times> ('v, 'f, 'n, 'lg, 'pol, ('o, 'a, 'r, 'i) TrajectoryWithRew) AgentTrainer" where
  "AgentTrainer_sample generate_trajectories steps self =
     (case AgentTrainer_pop_trajectories self of
        (popped, self1) \<Rightarrow>
          let trajectories = rev popped;
              avail_steps = sum_len trajectories
          in if avail_steps < steps then
               let self2 = logger_log (top_up_message steps avail_steps) self1;
                   sample_until = make_sample_until (Some (steps - avail_steps)) None
               in case generate_trajectories sample_until self2 of
                    (Inl e, self3) \<Rightarrow> (Inl e, self3)
                  | (Inr _, self3) \<Rightarrow>
                      (case AgentTrainer_pop_trajectories self3 of
                         (additional_trajectories, self4) \<Rightarrow>
                           (get_trajectories (trajectories @ additional_trajectories) steps,
                            self4))
             else (get_trajectories trajectories steps, self1))"

subsection \<open>Concrete inputs\<close>

text \<open>A trajectory of \<open>n\<close> steps, every step with reward \<open>r\<close> and no further content.\<close>

definition flat_traj :: "nat \<Rightarrow> int \<Rightarrow> (unit, unit, int, unit) TrajectoryWithRew" where
  "flat_traj n r =
     replicate n \<lparr>observation = (), action = (), reward = r, terminal = False, info = ()\<rparr>"

text \<open>
  A stand-in for the standard library's generator, for evaluating the dataset generator on
  concrete inputs: the state is a counter, shuffling rotates the list by the counter and
  increments it.
\<close>

definition rot_Random :: "int \<Rightarrow> nat" where
  "rot_Random seed = nat \<bar>seed\<bar>"

definition rot_shuffle :: "nat \<Rightarrow> 'x list \<Rightarrow> 'x list \<times> nat" where
  "rot_shuffle g xs = (rotate g xs, Suc g)"

text \<open>
  An agent generator over a unit base environment with the given buffer contents and
  transition count, a training procedure that records one episode of \<^verbatim>\<open>steps\<close>
  transitions with true reward \<open>1\<close>, and a rollout utility that records one episode of
  the requested length with true reward \<open>30\<close> while returning its own copy with the
  substituted reward \<open>99\<close>.
\<close>

type_synonym demo_traj = "(unit, unit, int, unit) TrajectoryWithRew"

type_synonym demo_trainer = "(unit, unit, unit, nat, unit, demo_traj) AgentTrainer"

definition demo_venv :: "(unit, unit, unit) vec_env" where
  "demo_venv = RewardVecEnvWrapper (Buffering (BaseVecEnv ())) (Function ())"

definition demo_trainer :: "demo_traj list \<Rightarrow> nat \<Rightarrow> demo_trainer" where
  "demo_trainer buffered n =
     \<lparr>at_algorithm = \<lparr>alg_env = EnvVec demo_venv, alg_logger = 0, alg_policy = ()\<rparr>,
      at_logger = 0,
      at_reward_fn = Function (),
      at_buffering_wrapper = \<lparr>bw_venv = BaseVecEnv (), bw_trajectories = buffered, n_transitions = n\<rparr>,
      at_venv = demo_venv,
      logged = []\<rparr>"

definition record_episode :: "demo_traj \<Rightarrow> demo_trainer \<Rightarrow> demo_trainer" where
  "record_episode traj self =
     self\<lparr>at_buffering_wrapper :=
            (at_buffering_wrapper self)
              \<lparr>bw_trajectories := bw_trajectories (at_buffering_wrapper self) @ [traj],
               n_transitions := n_transitions (at_buffering_wrapper self) + traj_len traj\<rparr>\<rparr>"

definition demo_learn :: "int \<Rightarrow> unit \<Rightarrow> demo_trainer \<Rightarrow> (error + unit) \<times> demo_trainer" where
  "demo_learn steps kwargs self = (Inr (), record_episode (flat_traj (nat steps) 1) self)"

definition demo_generate :: "sample_until \<Rightarrow> demo_trainer \<Rightarrow> (error + demo_traj list) \<times> demo_trainer" where
  "demo_generate rule self =
     (case min_timesteps rule of
        None \<Rightarrow> (Inl (ValueError ''no stopping rule''), self)
      | Some k \<Rightarrow> (Inr [flat_traj (nat k) 99], record_episode (flat_traj (nat k) 30) self))"

definition failing_generate :: "sample_until \<Rightarrow> demo_trainer \<Rightarrow> (error + demo_traj list) \<times> demo_trainer" where
  "failing_generate rule self = (Inl (RuntimeError ''environment step failed''), self)"

definition demo_store :: "demo_traj store" where
  "demo_store = \<lparr>cells = (\<lambda>a. []), next_free = 0\<rparr>"

definition demo_load :: "unit \<Rightarrow> error + demo_traj list" where
  "demo_load path = Inr [flat_traj 1 1, flat_traj 2 2, flat_traj 3 3]"

definition demo_dataset :: "(nat, nat) TrajectoryDataset" where
  "demo_dataset = \<lparr>ds_logger = 0, ds_trajectories = 0, ds_rng = 1\<rparr>"

definition loaded_store :: "demo_traj store" where
  "loaded_store =
     \<lparr>cells = (\<lambda>a. [])(0 := [flat_traj 1 1, flat_traj 2 2, flat_traj 3 3]), next_free = 1\<rparr>"

text \<open>Two agents whose environment is unusable: not set, and set to something else.\<close>

definition alg_none :: "(unit, unit, unit, nat, unit) BaseAlgorithm" where
  "alg_none = \<lparr>alg_env = EnvNone, alg_logger = 0, alg_policy = ()\<rparr>"

definition alg_other :: "(unit, unit, unit, nat, unit) BaseAlgorithm" where
  "alg_other = \<lparr>alg_env = EnvOther, alg_logger = 0, alg_policy = ()\<rparr>"

section \<open>Properties of the step-quota selector\<close>

subsection \<open>Auxiliary facts\<close>

lemma length_cumsum_from: "length (cumsum_from acc xs) = length xs"
  by (induction xs arbitrary: acc) simp_all

lemma nth_cumsum_from:
  "k < length xs \<Longrightarrow> cumsum_from acc xs ! k = acc + sum_list (take (Suc k) xs)"
proof (induction xs arbitrary: acc k)
  case Nil
  then show ?case by simp
next
  case (Cons x xs)
  then show ?case by (cases k) (simp_all add: add.assoc)
qed

lemma sum_len_Nil: "sum_len [] = 0"
  by (simp add: sum_len_def)

lemma sum_len_Cons: "sum_len (t # ts) = int (traj_len t) + sum_len ts"
  by (simp add: sum_len_def)

lemma sum_len_nonneg: "0 \<le> sum_len ts"
  by (induction ts) (simp_all add: sum_len_Nil sum_len_Cons)

lemma sum_len_take:
  "sum_len (take n ts) = sum_list (take n (map (\<lambda>traj. int (traj_len traj)) ts))"
  by (simp add: sum_len_def take_map)

lemma nth_cumsum_lens:
  "k < length ts \<Longrightarrow>
   cumsum (map (\<lambda>traj. int (traj_len traj)) ts) ! k = sum_len (take (Suc k) ts)"
  by (simp add: cumsum_def nth_cumsum_from sum_len_take)

text \<open>On booleans, \<open>argmax\<close> finds the first \<open>True\<close>, and index \<open>0\<close> if there is none.\<close>

lemma argmax_scan_True: "argmax_scan bs i best_i True = best_i"
  by (induction bs arbitrary: i) simp_all

lemma argmax_scan_False:
  "argmax_scan bs i best_i False =
     (if True \<in> set bs then i + length (takeWhile Not bs) else best_i)"
  by (induction bs arbitrary: i best_i) (auto simp: argmax_scan_True)

lemma argmax_bool:
  "bs \<noteq> [] \<Longrightarrow>
   argmax bs = Inr (if True \<in> set bs then length (takeWhile Not bs) else 0)"
  by (cases bs) (auto simp: argmax_def argmax_scan_True argmax_scan_False)

lemma takeWhile_stops_early:
  "\<exists>x \<in> set xs. \<not> P x \<Longrightarrow> length (takeWhile P xs) < length xs"
  by (induction xs) auto

text \<open>The index the selector computes when the quota can be met.\<close>

lemma selector_index:
  assumes ne: "ts \<noteq> []" and enough: "steps \<le> sum_len ts"
  defines "cs \<equiv> cumsum (map (\<lambda>traj. int (traj_len traj)) ts)"
  defines "idx \<equiv> length (takeWhile Not (map (\<lambda>c. steps \<le> c) cs))"
  shows "argmax (map (\<lambda>c. steps \<le> c) cs) = Inr idx"
    and "idx < length ts"
    and "steps \<le> sum_len (take (Suc idx) ts)"
    and "\<forall>k < idx. sum_len (take (Suc k) ts) < steps"
proof -
  let ?bs = "map (\<lambda>c. steps \<le> c) cs"
  have len: "length ?bs = length ts"
    by (simp add: cs_def cumsum_def length_cumsum_from)
  have nth: "\<And>k. k < length ts \<Longrightarrow> ?bs ! k = (steps \<le> sum_len (take (Suc k) ts))"
    using len by (simp add: cs_def nth_cumsum_lens)
  have last_ok: "?bs ! (length ts - 1)"
    using ne enough nth [of "length ts - 1"] by simp
  have "?bs ! (length ts - 1) \<in> set ?bs"
    using ne len by (intro nth_mem) simp
  with last_ok have ex: "True \<in> set ?bs" by simp
  from ne len have "?bs \<noteq> []" by auto
  from argmax_bool [OF this] ex show "argmax ?bs = Inr idx"
    by (simp add: idx_def)
  from ex have "\<exists>b \<in> set ?bs. \<not> Not b" by auto
  then have lt: "idx < length ?bs"
    unfolding idx_def by (rule takeWhile_stops_early)
  with len show idx_lt: "idx < length ts" by simp
  have "\<not> Not (?bs ! idx)"
    unfolding idx_def using lt [unfolded idx_def] by (rule nth_length_takeWhile)
  with nth [OF idx_lt] show "steps \<le> sum_len (take (Suc idx) ts)" by simp
  show "\<forall>k < idx. sum_len (take (Suc k) ts) < steps"
  proof (intro allI impI)
    fix k assume k: "k < idx"
    then have "takeWhile Not ?bs ! k = ?bs ! k"
      unfolding idx_def by (rule takeWhile_nth)
    moreover have "takeWhile Not ?bs ! k \<in> set (takeWhile Not ?bs)"
      using k unfolding idx_def by (intro nth_mem)
    then have "Not (takeWhile Not ?bs ! k)" by (rule set_takeWhileD [THEN conjunct2])
    ultimately have "\<not> ?bs ! k" by simp
    moreover from k idx_lt have "k < length ts" by simp
    ultimately show "sum_len (take (Suc k) ts) < steps" using nth by simp
  qed
qed

text \<open>Whatever the selector returns is a prefix of its input that meets the quota.\<close>

lemma get_trajectories_Inr:
  "get_trajectories ts steps = Inr r \<Longrightarrow> steps \<le> sum_len r \<and> (\<exists>n. r = take n ts)"
  by (auto simp: get_trajectories_def Let_def split: if_splits sum.splits)

text \<open>Evaluation on concrete inputs.\<close>

lemma traj_len_flat: "traj_len (flat_traj n r) = n"
  by (simp add: traj_len_def flat_traj_def)

lemmas selector_eval =
  get_trajectories_def sum_len_Nil sum_len_Cons traj_len_flat cumsum_def argmax_def Let_def

lemmas str_eval = str_int_def str_nat.simps digit_char_def

subsection \<open>Meeting the quota\<close>

text \<open>
  Claim C1, as amended. For every non-empty sequence of trajectories and every requested
  step count \<open>steps\<close> that is at most the summed length of the sequence,
  \<^verbatim>\<open>_get_trajectories\<close> returns a non-empty contiguous prefix of the input, in input
  order, whose summed length is at least \<open>steps\<close>, and no shorter non-empty prefix
  reaches \<open>steps\<close>. When \<open>steps\<close> is at least \<open>1\<close>, removing the last element of the
  result drops the summed length below \<open>steps\<close>; when \<open>steps\<close> is \<open>0\<close> or negative
  the result is the first trajectory alone.
\<close>

theorem selector_minimal_prefix:
  assumes ne: "ts \<noteq> []" and enough: "steps \<le> sum_len ts"
  shows "\<exists>n. 1 \<le> n \<and> n \<le> length ts
           \<and> get_trajectories ts steps = Inr (take n ts)
           \<and> steps \<le> sum_len (take n ts)
           \<and> (\<forall>m. 1 \<le> m \<and> m < n \<longrightarrow> sum_len (take m ts) < steps)
           \<and> (1 \<le> steps \<longrightarrow> sum_len (butlast (take n ts)) < steps)
           \<and> (steps \<le> 0 \<longrightarrow> n = 1)"
proof -
  define idx where
    "idx = length (takeWhile Not (map (\<lambda>c. steps \<le> c)
             (cumsum (map (\<lambda>traj. int (traj_len traj)) ts))))"
  note sel = selector_index [OF ne enough, folded idx_def]
  have res: "get_trajectories ts steps = Inr (take (Suc idx) ts)"
    using enough sel(1) sel(3) by (simp add: get_trajectories_def Let_def)
  have below: "\<forall>m. 1 \<le> m \<and> m < Suc idx \<longrightarrow> sum_len (take m ts) < steps"
  proof (intro allI impI)
    fix m assume "1 \<le> m \<and> m < Suc idx"
    then obtain k where "m = Suc k" "k < idx" by (cases m) auto
    with sel(4) show "sum_len (take m ts) < steps" by simp
  qed
  have bl: "butlast (take (Suc idx) ts) = take idx ts"
    using sel(2) by (simp add: butlast_take)
  have last: "1 \<le> steps \<longrightarrow> sum_len (butlast (take (Suc idx) ts)) < steps"
  proof
    assume pos: "1 \<le> steps"
    show "sum_len (butlast (take (Suc idx) ts)) < steps"
    proof (cases idx)
      case 0
      with pos bl show ?thesis by (simp add: sum_len_Nil)
    next
      case (Suc k)
      with sel(4) bl show ?thesis by simp
    qed
  qed
  have first: "steps \<le> 0 \<longrightarrow> Suc idx = 1"
  proof
    assume nonpos: "steps \<le> 0"
    show "Suc idx = 1"
    proof (cases idx)
      case 0
      then show ?thesis by simp
    next
      case (Suc k)
      with sel(4) have "sum_len (take (Suc 0) ts) < steps" by blast
      with nonpos sum_len_nonneg [of "take (Suc 0) ts"] show ?thesis by simp
    qed
  qed
  from res sel(2) sel(3) below last first show ?thesis
    by (intro exI [of _ "Suc idx"]) simp
qed

text \<open>
  The specification's example: lengths \<open>4, 5, 2\<close> and \<open>steps = 6\<close> give the first two
  trajectories.
\<close>

theorem selector_minimal_prefix_witness:
  "[flat_traj 4 0, flat_traj 5 0, flat_traj 2 0] \<noteq> []
   \<and> 6 \<le> sum_len [flat_traj 4 0, flat_traj 5 0, flat_traj 2 0]
   \<and> get_trajectories [flat_traj 4 0, flat_traj 5 0, flat_traj 2 0] 6
        = Inr [flat_traj 4 0, flat_traj 5 0]
   \<and> (\<exists>n. 1 \<le> n \<and> n \<le> length [flat_traj 4 0, flat_traj 5 0, flat_traj 2 0]
           \<and> get_trajectories [flat_traj 4 0, flat_traj 5 0, flat_traj 2 0] 6
               = Inr (take n [flat_traj 4 0, flat_traj 5 0, flat_traj 2 0])
           \<and> 6 \<le> sum_len (take n [flat_traj 4 0, flat_traj 5 0, flat_traj 2 0])
           \<and> (\<forall>m. 1 \<le> m \<and> m < n \<longrightarrow>
                 sum_len (take m [flat_traj 4 0, flat_traj 5 0, flat_traj 2 0]) < 6)
           \<and> (1 \<le> (6::int) \<longrightarrow>
                 sum_len (butlast (take n [flat_traj 4 0, flat_traj 5 0, flat_traj 2 0])) < 6)
           \<and> ((6::int) \<le> 0 \<longrightarrow> n = 1))"
proof -
  have h1: "[flat_traj 4 0, flat_traj 5 0, flat_traj 2 0] \<noteq> []" by simp
  have h2: "6 \<le> sum_len [flat_traj 4 0, flat_traj 5 0, flat_traj 2 0]"
    by (simp add: sum_len_Cons sum_len_Nil traj_len_flat)
  have h3: "get_trajectories [flat_traj 4 0, flat_traj 5 0, flat_traj 2 0] 6
        = Inr [flat_traj 4 0, flat_traj 5 0]"
    by (simp add: selector_eval)
  from selector_minimal_prefix [OF h1 h2] h1 h2 h3 show ?thesis by blast
qed

text \<open>
  Claim C1 as stated fails when \<open>steps\<close> is not positive. One trajectory of three steps
  and \<open>steps = 0\<close>: the request is within the total, the selector returns the trajectory,
  and removing it leaves a summed length of \<open>0\<close>, which is not below \<open>steps\<close>.
\<close>

theorem selector_zero_steps_not_minimal:
  "0 \<le> sum_len [flat_traj 3 0]
   \<and> get_trajectories [flat_traj 3 0] 0 = Inr [flat_traj 3 0]
   \<and> \<not> sum_len (butlast [flat_traj 3 0]) < 0"
  by (simp add: selector_eval)

subsection \<open>Failing on a short supply\<close>

text \<open>
  Claim C2. For every sequence of trajectories and every requested step count strictly
  greater than the summed length of the sequence, \<^verbatim>\<open>_get_trajectories\<close> raises a
  \<^verbatim>\<open>RuntimeError\<close> whose message names the requested and the available step counts; no
  list, partial or otherwise, is returned.
\<close>

theorem selector_insufficient_fails:
  "sum_len ts < steps \<Longrightarrow>
   get_trajectories ts steps =
     Inl (RuntimeError (''Asked for '' @ str_int steps @ '' transitions but only '' @
                        str_int (sum_len ts) @ '' available''))"
  by (simp add: get_trajectories_def)

theorem selector_insufficient_fails_witness:
  "sum_len [flat_traj 4 0, flat_traj 5 0, flat_traj 2 0] < 12
   \<and> get_trajectories [flat_traj 4 0, flat_traj 5 0, flat_traj 2 0] 12
       = Inl (RuntimeError ''Asked for 12 transitions but only 11 available'')"
proof -
  have total: "sum_len [flat_traj 4 0, flat_traj 5 0, flat_traj 2 0] = 11"
    by (simp add: sum_len_Cons sum_len_Nil traj_len_flat)
  then have h: "sum_len [flat_traj 4 0, flat_traj 5 0, flat_traj 2 0] < 12"
    by simp
  from selector_insufficient_fails [OF h] h show ?thesis
    by (simp add: total str_eval)
qed

subsection \<open>The empty input\<close>

text \<open>
  Claim C9. For the empty sequence and a requested step count of \<open>0\<close>, the available step
  count \<open>0\<close> is not below the request, so the guard does not fire; the cumulative sums are
  empty and \<^verbatim>\<open>argmax\<close> raises \<^verbatim>\<open>ValueError\<close>. The selector does not return the empty
  prefix.
\<close>

theorem selector_empty_zero_raises:
  "\<not> sum_len ([] :: ('o, 'a, 'r, 'i) TrajectoryWithRew list) < 0
   \<and> cumsum (map (\<lambda>traj. int (traj_len traj)) ([] :: ('o, 'a, 'r, 'i) TrajectoryWithRew list)) = []
   \<and> get_trajectories ([] :: ('o, 'a, 'r, 'i) TrajectoryWithRew list) 0
       = Inl (ValueError ''attempt to get an argmax of an empty sequence'')"
  by (simp add: get_trajectories_def sum_len_Nil cumsum_def argmax_def)

section \<open>Properties of the dataset generator\<close>

subsection \<open>Auxiliary facts\<close>

text \<open>One \<^verbatim>\<open>sample\<close> call in closed form: outcome, instance and store afterwards.\<close>

lemma dataset_sample_eq:
  "TrajectoryDataset_sample shuffle steps self st =
     (get_trajectories (fst (shuffle (ds_rng self) (cells st (ds_trajectories self)))) steps,
      self\<lparr>ds_rng := snd (shuffle (ds_rng self) (cells st (ds_trajectories self)))\<rparr>,
      st\<lparr>cells := (cells st)
             (next_free st := fst (shuffle (ds_rng self) (cells st (ds_trajectories self)))),
         next_free := Suc (next_free st)\<rparr>)"
  by (simp add: TrajectoryDataset_sample_def new_list_def Let_def split: prod.splits)

lemma sample_calls_stream:
  "ds_trajectories d < next_free st \<Longrightarrow> cells st (ds_trajectories d) = ts \<Longrightarrow>
   sample_calls shuffle ns d st = stream_results shuffle (ds_rng d) ts ns"
proof (induction ns arbitrary: d st)
  case Nil
  then show ?case by simp
next
  case (Cons n ns)
  let ?g = "ds_rng d"
  let ?d' = "d\<lparr>ds_rng := snd (shuffle ?g ts)\<rparr>"
  let ?st' = "st\<lparr>cells := (cells st)(next_free st := fst (shuffle ?g ts)),
                 next_free := Suc (next_free st)\<rparr>"
  have "ds_trajectories ?d' < next_free ?st'" using Cons.prems(1) by simp
  moreover have "cells ?st' (ds_trajectories ?d') = ts" using Cons.prems by simp
  ultimately have "sample_calls shuffle ns ?d' ?st' = stream_results shuffle (ds_rng ?d') ts ns"
    by (rule Cons.IH)
  then show ?case using Cons.prems by (simp add: dataset_sample_eq)
qed

lemma dataset_init_ok:
  "load path = Inr ts \<Longrightarrow>
   TrajectoryDataset_init configure load Random path seed custom_logger st =
     (Inr \<lparr>ds_logger = init_logger configure custom_logger, ds_trajectories = next_free st,
           ds_rng = Random seed\<rparr>,
      st\<lparr>cells := (cells st)(next_free st := ts), next_free := Suc (next_free st)\<rparr>)"
  by (simp add: TrajectoryDataset_init_def new_list_def Let_def)

lemma demo_stream:
  "stream_results rot_shuffle (rot_Random 1) [flat_traj 1 1, flat_traj 2 2, flat_traj 3 3] [3, 3]
     = [Inr [flat_traj 2 2, flat_traj 3 3], Inr [flat_traj 3 3]]"
  by (simp add: rot_shuffle_def rot_Random_def selector_eval)

subsection \<open>Reproducibility\<close>

text \<open>
  Claim C5. Two dataset generators freshly constructed with the same seed from sources that
  load to the same trajectory collection (whatever their loggers, paths and the surrounding
  store) return identical results for corresponding \<^verbatim>\<open>sample\<close> calls. Within one
  instance the calls consume one generator stream: each call shuffles with the state the
  previous call left, not with the seed's initial state, so a second call with the same
  argument may return a different selection than the first. The standard library's generator
  is a parameter (\<open>Random\<close>, \<open>shuffle\<close>).
\<close>

theorem dataset_reproducible:
  assumes "load path1 = Inr ts" and "load path2 = Inr ts"
  shows "\<exists>d1 d2.
           fst (TrajectoryDataset_init configure1 load Random path1 seed custom_logger1 st1) = Inr d1
         \<and> fst (TrajectoryDataset_init configure2 load Random path2 seed custom_logger2 st2) = Inr d2
         \<and> sample_calls shuffle ns d1
             (snd (TrajectoryDataset_init configure1 load Random path1 seed custom_logger1 st1))
           = sample_calls shuffle ns d2
               (snd (TrajectoryDataset_init configure2 load Random path2 seed custom_logger2 st2))
         \<and> sample_calls shuffle ns d1
             (snd (TrajectoryDataset_init configure1 load Random path1 seed custom_logger1 st1))
           = stream_results shuffle (Random seed) ts ns"
proof -
  let ?d1 = "\<lparr>ds_logger = init_logger configure1 custom_logger1, ds_trajectories = next_free st1,
              ds_rng = Random seed\<rparr>"
  let ?d2 = "\<lparr>ds_logger = init_logger configure2 custom_logger2, ds_trajectories = next_free st2,
              ds_rng = Random seed\<rparr>"
  let ?s1 = "st1\<lparr>cells := (cells st1)(next_free st1 := ts), next_free := Suc (next_free st1)\<rparr>"
  let ?s2 = "st2\<lparr>cells := (cells st2)(next_free st2 := ts), next_free := Suc (next_free st2)\<rparr>"
  have i1: "TrajectoryDataset_init configure1 load Random path1 seed custom_logger1 st1
              = (Inr ?d1, ?s1)"
    using assms(1) by (rule dataset_init_ok)
  have i2: "TrajectoryDataset_init configure2 load Random path2 seed custom_logger2 st2
              = (Inr ?d2, ?s2)"
    using assms(2) by (rule dataset_init_ok)
  have r1: "sample_calls shuffle ns ?d1 ?s1 = stream_results shuffle (Random seed) ts ns"
    using sample_calls_stream [of ?d1 ?s1 ts shuffle ns] by simp
  have r2: "sample_calls shuffle ns ?d2 ?s2 = stream_results shuffle (Random seed) ts ns"
    using sample_calls_stream [of ?d2 ?s2 ts shuffle ns] by simp
  show ?thesis
    by (intro exI [of _ ?d1] exI [of _ ?d2]) (simp add: i1 i2 r1 r2)
qed

text \<open>
  With the rotating stand-in generator, seed \<open>1\<close> and trajectories of lengths \<open>1, 2, 3\<close>:
  two instances with different loggers in different stores agree, and within an instance
  the second \<^verbatim>\<open>sample(3)\<close> differs from the first.
\<close>

theorem dataset_reproducible_witness:
  "demo_load () = Inr [flat_traj 1 1, flat_traj 2 2, flat_traj 3 3]
   \<and> (\<exists>d1 d2.
         fst (TrajectoryDataset_init (0::nat) demo_load rot_Random () 1 (Some 7) demo_store) = Inr d1
       \<and> fst (TrajectoryDataset_init (0::nat) demo_load rot_Random () 1 None loaded_store) = Inr d2
       \<and> sample_calls rot_shuffle [3, 3] d1
           (snd (TrajectoryDataset_init (0::nat) demo_load rot_Random () 1 (Some 7) demo_store))
         = sample_calls rot_shuffle [3, 3] d2
             (snd (TrajectoryDataset_init (0::nat) demo_load rot_Random () 1 None loaded_store))
       \<and> sample_calls rot_shuffle [3, 3] d1
           (snd (TrajectoryDataset_init (0::nat) demo_load rot_Random () 1 (Some 7) demo_store))
         = [Inr [flat_traj 2 2, flat_traj 3 3], Inr [flat_traj 3 3]])
   \<and> Inr [flat_traj 2 2, flat_traj 3 3] \<noteq> (Inr [flat_traj 3 3] :: error + demo_traj list)"
proof -
  have h: "demo_load () = Inr [flat_traj 1 1, flat_traj 2 2, flat_traj 3 3]"
    by (simp add: demo_load_def)
  note inst = dataset_reproducible [where load = demo_load and ?path1.0 = "()"
      and ?path2.0 = "()" and ts = "[flat_traj 1 1, flat_traj 2 2, flat_traj 3 3]"
      and Random = rot_Random and seed = 1 and shuffle = rot_shuffle and ns = "[3, 3]"
      and ?configure1.0 = "0::nat" and ?configure2.0 = "0::nat"
      and ?custom_logger1.0 = "Some 7" and ?custom_logger2.0 = None
      and ?st1.0 = demo_store and ?st2.0 = loaded_store]
  from inst [OF h h] show ?thesis
    unfolding demo_stream using h by simp
qed

subsection \<open>The stored collection is left alone\<close>

text \<open>
  Claim C10. For every dataset generator whose stored collection is an allocated list object
  and every \<^verbatim>\<open>sample(steps)\<close> call, successful or not: the stored collection has the same
  elements in the same order afterwards, every list object that existed before the call is
  unchanged, the shuffled contents sit in a freshly allocated object, and the instance
  differs from before only in its generator state.
\<close>

theorem dataset_sample_frame:
  assumes "ds_trajectories self < next_free st"
  shows "case TrajectoryDataset_sample shuffle steps self st of
           (outcome, self', st') \<Rightarrow>
             cells st' (ds_trajectories self') = cells st (ds_trajectories self)
             \<and> self' = self\<lparr>ds_rng := snd (shuffle (ds_rng self) (cells st (ds_trajectories self)))\<rparr>
             \<and> (\<forall>a < next_free st. cells st' a = cells st a)
             \<and> next_free st' = Suc (next_free st)
             \<and> cells st' (next_free st)
                 = fst (shuffle (ds_rng self) (cells st (ds_trajectories self)))"
  using assms by (simp add: dataset_sample_eq)

theorem dataset_sample_frame_witness:
  "ds_trajectories demo_dataset < next_free loaded_store
   \<and> (case TrajectoryDataset_sample rot_shuffle 3 demo_dataset loaded_store of
         (outcome, self', st') \<Rightarrow>
           outcome = Inr [flat_traj 2 2, flat_traj 3 3]
           \<and> cells st' 0 = [flat_traj 1 1, flat_traj 2 2, flat_traj 3 3]
           \<and> cells st' 1 = [flat_traj 2 2, flat_traj 3 3, flat_traj 1 1]
           \<and> self' = demo_dataset\<lparr>ds_rng := 2\<rparr>)"
proof -
  have h: "ds_trajectories demo_dataset < next_free loaded_store"
    by (simp add: demo_dataset_def loaded_store_def)
  have out: "fst (TrajectoryDataset_sample rot_shuffle 3 demo_dataset loaded_store)
               = Inr [flat_traj 2 2, flat_traj 3 3]"
    by (simp add: dataset_sample_eq demo_dataset_def loaded_store_def rot_shuffle_def
          selector_eval)
  from dataset_sample_frame [OF h, of rot_shuffle 3] h out show ?thesis
    by (auto simp: demo_dataset_def loaded_store_def rot_shuffle_def split: prod.splits)
qed

subsection \<open>Training is a no-op\<close>

text \<open>
  Claim C8. For every dataset generator, and for every generator variant that inherits
  \<^verbatim>\<open>TrajectoryGenerator.train\<close>, \<^verbatim>\<open>train(steps, **options)\<close> raises nothing, returns
  \<^verbatim>\<open>None\<close> and leaves the whole state unchanged: the instance with its stored
  collection, generator state and logger, and the store of list objects.
\<close>

theorem default_train_noop:
  "TrajectoryDataset_train steps kwargs (self, st) = (Inr (), self, st)
   \<and> TrajectoryGenerator_train steps kwargs' s = (Inr (), s)"
  by (simp add: TrajectoryDataset_train_def TrajectoryGenerator_train_def)

section \<open>Properties of the agent generator\<close>

subsection \<open>Auxiliary facts\<close>

lemma pop_eq:
  "AgentTrainer_pop_trajectories self =
     (bw_trajectories (at_buffering_wrapper self),
      self\<lparr>at_buffering_wrapper :=
             (at_buffering_wrapper self)\<lparr>bw_trajectories := [], n_transitions := 0\<rparr>\<rparr>)"
  by (simp add: AgentTrainer_pop_trajectories_def pop_trajectories_def)

lemma sample_enough:
  "\<not> sum_len (rev (bw_trajectories (at_buffering_wrapper self))) < steps \<Longrightarrow>
   AgentTrainer_sample gen steps self =
     (get_trajectories (rev (bw_trajectories (at_buffering_wrapper self))) steps,
      snd (AgentTrainer_pop_trajectories self))"
  by (simp add: AgentTrainer_sample_def pop_eq Let_def)

lemma sample_short:
  assumes "sum_len (rev (bw_trajectories (at_buffering_wrapper self))) < steps"
  shows "AgentTrainer_sample gen steps self =
     (case gen (SampleUntil
                  (Some (steps - sum_len (rev (bw_trajectories (at_buffering_wrapper self)))))
                  None)
               (logger_log
                  (top_up_message steps
                     (sum_len (rev (bw_trajectories (at_buffering_wrapper self)))))
                  (snd (AgentTrainer_pop_trajectories self))) of
        (Inl e, self3) \<Rightarrow> (Inl e, self3)
      | (Inr x, self3) \<Rightarrow>
          (get_trajectories
             (rev (bw_trajectories (at_buffering_wrapper self))
                @ bw_trajectories (at_buffering_wrapper self3)) steps,
           snd (AgentTrainer_pop_trajectories self3)))"
  using assms
  by (simp add: AgentTrainer_sample_def pop_eq Let_def make_sample_until_def
        split: prod.splits sum.splits)

subsection \<open>Training is refused while transitions are unclaimed\<close>

text \<open>
  Claim C3. For every state of the agent generator in which the buffering wrapper reports a
  non-zero \<^verbatim>\<open>n_transitions\<close>, \<^verbatim>\<open>train(steps)\<close> raises a \<^verbatim>\<open>RuntimeError\<close> naming that
  exact count, and the agent's \<^verbatim>\<open>learn\<close> is not invoked: the outcome and the unchanged
  state do not depend on \<open>learn\<close>. When the count is zero, \<^verbatim>\<open>train\<close> is the call
  \<^verbatim>\<open>learn(total_timesteps=steps, **kwargs)\<close> with its return value dropped.
\<close>

theorem train_guard:
  "(n_transitions (at_buffering_wrapper self) \<noteq> 0 \<longrightarrow>
      AgentTrainer_train learn steps kwargs self =
        (Inl (RuntimeError (''There are ''
                @ str_int (int (n_transitions (at_buffering_wrapper self)))
                @ '' transitions left in the buffer. Call AgentTrainer.sample() first to clear them.'')),
         self))
   \<and> (n_transitions (at_buffering_wrapper self) = 0 \<longrightarrow>
      AgentTrainer_train learn steps kwargs self =
        (map_sum id (\<lambda>_. ()) (fst (learn steps kwargs self)), snd (learn steps kwargs self)))"
  by (auto simp: AgentTrainer_train_def Let_def split: prod.splits sum.splits)

theorem train_guard_witness:
  "n_transitions (at_buffering_wrapper (demo_trainer [flat_traj 7 1] 7)) \<noteq> 0
   \<and> AgentTrainer_train demo_learn 4 () (demo_trainer [flat_traj 7 1] 7) =
       (Inl (RuntimeError
          ''There are 7 transitions left in the buffer. Call AgentTrainer.sample() first to clear them.''),
        demo_trainer [flat_traj 7 1] 7)
   \<and> n_transitions (at_buffering_wrapper (demo_trainer [] 0)) = 0
   \<and> AgentTrainer_train demo_learn 4 () (demo_trainer [] 0) =
       (Inr (), demo_trainer [flat_traj 4 1] 4)"
proof -
  have h1: "n_transitions (at_buffering_wrapper (demo_trainer [flat_traj 7 1] 7)) \<noteq> 0"
    by (simp add: demo_trainer_def)
  have h2: "n_transitions (at_buffering_wrapper (demo_trainer [] 0)) = 0"
    by (simp add: demo_trainer_def)
  have s: "str_int 7 = ''7''"
    by (simp add: str_eval)
  have l: "demo_learn 4 () (demo_trainer [] 0) = (Inr (), demo_trainer [flat_traj 4 1] 4)"
    by (simp add: demo_learn_def demo_trainer_def record_episode_def traj_len_flat)
  from train_guard [of "demo_trainer [flat_traj 7 1] 7" demo_learn 4 "()"] h1
  have a: "AgentTrainer_train demo_learn 4 () (demo_trainer [flat_traj 7 1] 7) =
       (Inl (RuntimeError
          ''There are 7 transitions left in the buffer. Call AgentTrainer.sample() first to clear them.''),
        demo_trainer [flat_traj 7 1] 7)"
    by (simp add: s demo_trainer_def)
  from train_guard [of "demo_trainer [] 0" demo_learn 4 "()"] h2
  have b: "AgentTrainer_train demo_learn 4 () (demo_trainer [] 0) =
       (Inr (), demo_trainer [flat_traj 4 1] 4)"
    by (simp add: l)
  from h1 a h2 b show ?thesis by blast
qed

subsection \<open>Sampling: drain, reverse, top up, select\<close>

text \<open>
  Claim C4. For every call \<^verbatim>\<open>AgentTrainer.sample(steps)\<close>: the buffering wrapper is
  drained and the drained list reversed. If the summed length \<open>avail\<close> of the drained
  trajectories is not below \<open>steps\<close>, nothing is logged, no rollout is run and the selector
  is applied to the reversed list. If it is below, the diagnostic naming the shortfall is
  logged, the rollout utility runs with the stopping rule
  \<^verbatim>\<open>min_timesteps = steps - avail\<close>, \<^verbatim>\<open>min_episodes = None\<close>; if it raises, the error
  propagates; otherwise the wrapper is drained again and the selector is applied to the
  reversed list followed by the newly drained trajectories, whatever the rollout utility
  itself returned. Whenever \<^verbatim>\<open>sample\<close> returns, the result is a prefix of trajectories
  drained from the wrapper with summed length at least \<open>steps\<close>.
\<close>

theorem sample_flow:
  "let popped = bw_trajectories (at_buffering_wrapper self);
       self1 = self\<lparr>at_buffering_wrapper :=
                 (at_buffering_wrapper self)\<lparr>bw_trajectories := [], n_transitions := 0\<rparr>\<rparr>;
       reversed = rev popped;
       avail = sum_len reversed;
       self2 = self1\<lparr>logged := logged self1 @ [(at_logger self1, top_up_message steps avail)]\<rparr>;
       rollout = gen (SampleUntil (Some (steps - avail)) None) self2;
       self3 = snd rollout;
       additional = bw_trajectories (at_buffering_wrapper self3);
       self4 = self3\<lparr>at_buffering_wrapper :=
                 (at_buffering_wrapper self3)\<lparr>bw_trajectories := [], n_transitions := 0\<rparr>\<rparr>
   in (\<not> avail < steps \<longrightarrow>
         AgentTrainer_sample gen steps self = (get_trajectories reversed steps, self1))
    \<and> (avail < steps \<longrightarrow>
         (\<forall>e. fst rollout = Inl e \<longrightarrow> AgentTrainer_sample gen steps self = (Inl e, self3))
       \<and> (\<forall>x. fst rollout = Inr x \<longrightarrow>
            AgentTrainer_sample gen steps self =
              (get_trajectories (reversed @ additional) steps, self4)))
    \<and> (\<forall>res. fst (AgentTrainer_sample gen steps self) = Inr res \<longrightarrow>
          steps \<le> sum_len res
          \<and> (\<exists>n. res = take n (reversed @ (if avail < steps then additional else []))))"
proof (cases "sum_len (rev (bw_trajectories (at_buffering_wrapper self))) < steps")
  case False
  from sample_enough [OF False, of gen] show ?thesis
    using False by (auto simp: Let_def pop_eq dest: get_trajectories_Inr)
next
  case True
  from sample_short [OF True, of gen] show ?thesis
    using True
    by (auto simp: Let_def pop_eq logger_log_def AgentTrainer_logger_def
          simp del: take_append split: prod.splits sum.splits dest: get_trajectories_Inr)
qed

text \<open>
  The specification's top-up scenario: the buffer holds five steps, \<^verbatim>\<open>sample(8)\<close> asks the
  rollout for exactly three more and returns the recorded trajectories (rewards \<open>20\<close>,
  \<open>10\<close>, \<open>30\<close>), not the rollout's own copy (reward \<open>99\<close>). With \<^verbatim>\<open>sample(4)\<close> no
  top-up happens; with a failing rollout the error propagates.
\<close>

theorem sample_flow_witness:
  "\<not> sum_len (rev [flat_traj 2 10, flat_traj 3 20]) < 4
   \<and> AgentTrainer_sample demo_generate 4 (demo_trainer [flat_traj 2 10, flat_traj 3 20] 5)
       = (Inr [flat_traj 3 20, flat_traj 2 10], demo_trainer [] 0)
   \<and> sum_len (rev [flat_traj 2 10, flat_traj 3 20]) < 8
   \<and> AgentTrainer_sample demo_generate 8 (demo_trainer [flat_traj 2 10, flat_traj 3 20] 5)
       = (Inr [flat_traj 3 20, flat_traj 2 10, flat_traj 3 30],
          (demo_trainer [] 0)
            \<lparr>logged := [(0, ''Requested 8 transitions but only 5 in buffer. Sampling 3 additional transitions.'')]\<rparr>)
   \<and> AgentTrainer_sample failing_generate 8 (demo_trainer [flat_traj 2 10, flat_traj 3 20] 5)
       = (Inl (RuntimeError ''environment step failed''),
          (demo_trainer [] 0)
            \<lparr>logged := [(0, ''Requested 8 transitions but only 5 in buffer. Sampling 3 additional transitions.'')]\<rparr>)"
proof -
  let ?A = "demo_trainer [flat_traj 2 10, flat_traj 3 20] 5"
  have avail: "sum_len (rev (bw_trajectories (at_buffering_wrapper ?A))) = 5"
    by (simp add: demo_trainer_def sum_len_Nil sum_len_Cons traj_len_flat)
  have msg: "top_up_message 8 5
       = ''Requested 8 transitions but only 5 in buffer. Sampling 3 additional transitions.''"
    by (simp add: top_up_message_def str_eval)
  have h1: "\<not> sum_len (rev [flat_traj 2 10, flat_traj 3 20]) < 4"
    by (simp add: sum_len_Nil sum_len_Cons traj_len_flat)
  have h2: "sum_len (rev [flat_traj 2 10, flat_traj 3 20]) < 8"
    by (simp add: sum_len_Nil sum_len_Cons traj_len_flat)
  have a: "AgentTrainer_sample demo_generate 4 ?A
       = (Inr [flat_traj 3 20, flat_traj 2 10], demo_trainer [] 0)"
    using sample_flow [where self = ?A and steps = 4 and gen = demo_generate]
    by (simp add: avail Let_def) (simp add: demo_trainer_def selector_eval)
  have b: "AgentTrainer_sample demo_generate 8 ?A
       = (Inr [flat_traj 3 20, flat_traj 2 10, flat_traj 3 30],
          (demo_trainer [] 0)
            \<lparr>logged := [(0, ''Requested 8 transitions but only 5 in buffer. Sampling 3 additional transitions.'')]\<rparr>)"
    using sample_flow [where self = ?A and steps = 8 and gen = demo_generate]
    by (simp add: avail msg Let_def)
       (simp add: demo_trainer_def demo_generate_def record_episode_def selector_eval)
  have c: "AgentTrainer_sample failing_generate 8 ?A
       = (Inl (RuntimeError ''environment step failed''),
          (demo_trainer [] 0)
            \<lparr>logged := [(0, ''Requested 8 transitions but only 5 in buffer. Sampling 3 additional transitions.'')]\<rparr>)"
    using sample_flow [where self = ?A and steps = 8 and gen = failing_generate]
    by (simp add: avail msg Let_def) (simp add: demo_trainer_def failing_generate_def)
  from h1 a h2 b c show ?thesis by blast
qed

subsection \<open>Construction over an unusable environment\<close>

text \<open>
  Claim C6, as amended. For every trainable agent whose environment is not set or is not a
  vectorized environment, constructing an agent generator from it raises \<^verbatim>\<open>ValueError\<close>;
  the agent's environment is not re-pointed, no wrapper is built and no generator is
  returned. The one effect of the failed construction on the agent is that its logger has
  already been set to the generator's logger (the custom one, or the default), since the
  logger is wired before the environment is checked.
\<close>

theorem init_env_check:
  assumes "alg_env algorithm = EnvNone \<or> alg_env algorithm = EnvOther"
  shows "case AgentTrainer_init configure algorithm reward_fn custom_logger of
           (outcome, algorithm') \<Rightarrow>
             outcome = Inl (ValueError ''The environment for the agent algorithm must be set.'')
             \<and> algorithm' = algorithm\<lparr>alg_logger := init_logger configure custom_logger\<rparr>
             \<and> alg_env algorithm' = alg_env algorithm
             \<and> alg_policy algorithm' = alg_policy algorithm"
  using assms
  by (auto simp: AgentTrainer_init_def Let_def get_env_def set_logger_def)

theorem init_env_check_witness:
  "(alg_env alg_none = EnvNone \<or> alg_env alg_none = EnvOther)
   \<and> (AgentTrainer_init 5 alg_none (RewardFn ()) (Some 1)
        :: (error + demo_trainer) \<times> _) =
       (Inl (ValueError ''The environment for the agent algorithm must be set.''),
        \<lparr>alg_env = EnvNone, alg_logger = 1, alg_policy = ()\<rparr>)
   \<and> (alg_env alg_other = EnvNone \<or> alg_env alg_other = EnvOther)
   \<and> (AgentTrainer_init 5 alg_other (RewardNet ()) None
        :: (error + demo_trainer) \<times> _) =
       (Inl (ValueError ''The environment for the agent algorithm must be set.''),
        \<lparr>alg_env = EnvOther, alg_logger = 5, alg_policy = ()\<rparr>)"
proof -
  have h1: "alg_env alg_none = EnvNone \<or> alg_env alg_none = EnvOther"
    by (simp add: alg_none_def)
  have h2: "alg_env alg_other = EnvNone \<or> alg_env alg_other = EnvOther"
    by (simp add: alg_other_def)
  from init_env_check [OF h1, where configure = 5 and reward_fn = "RewardFn ()"
      and custom_logger = "Some 1"]
  have a: "(AgentTrainer_init 5 alg_none (RewardFn ()) (Some 1)
        :: (error + demo_trainer) \<times> _) =
       (Inl (ValueError ''The environment for the agent algorithm must be set.''),
        \<lparr>alg_env = EnvNone, alg_logger = 1, alg_policy = ()\<rparr>)"
    by (auto simp: alg_none_def init_logger_def split: prod.splits)
  from init_env_check [OF h2, where configure = 5 and reward_fn = "RewardNet ()"
      and custom_logger = None]
  have b: "(AgentTrainer_init 5 alg_other (RewardNet ()) None
        :: (error + demo_trainer) \<times> _) =
       (Inl (ValueError ''The environment for the agent algorithm must be set.''),
        \<lparr>alg_env = EnvOther, alg_logger = 5, alg_policy = ()\<rparr>)"
    by (auto simp: alg_other_def init_logger_def split: prod.splits)
  from h1 a h2 b show ?thesis by blast
qed

text \<open>
  Claim C6 as stated fails: the failed construction is not free of effects. An agent without
  environment and with logger \<open>0\<close>, handed over with the custom logger \<open>1\<close>: construction
  raises, and the agent is no longer the one passed in, its logger now being \<open>1\<close>.
\<close>

theorem init_failure_sets_agent_logger:
  "alg_env alg_none = EnvNone
   \<and> fst (AgentTrainer_init 5 alg_none (RewardFn ()) (Some 1)
            :: (error + demo_trainer) \<times> _)
       = Inl (ValueError ''The environment for the agent algorithm must be set.'')
   \<and> snd (AgentTrainer_init 5 alg_none (RewardFn ()) (Some 1)
            :: (error + demo_trainer) \<times> _) \<noteq> alg_none
   \<and> alg_logger alg_none = 0
   \<and> alg_logger (snd (AgentTrainer_init 5 alg_none (RewardFn ()) (Some 1)
            :: (error + demo_trainer) \<times> _)) = 1"
  by (simp add: AgentTrainer_init_def Let_def get_env_def set_logger_def alg_none_def
        init_logger_def)

subsection \<open>The logger setter\<close>

text \<open>
  Claim C7. For every agent generator and every logger value, assigning the generator's
  \<^verbatim>\<open>logger\<close> updates the generator's own logger handle and passes the same logger to the
  wrapped agent through \<^verbatim>\<open>set_logger\<close>; nothing else changes.
\<close>

theorem logger_setter_propagates:
  "AgentTrainer_logger (AgentTrainer_set_logger val self) = val
   \<and> at_algorithm (AgentTrainer_set_logger val self) = set_logger val (at_algorithm self)
   \<and> alg_logger (at_algorithm (AgentTrainer_set_logger val self)) = val
   \<and> AgentTrainer_set_logger val self =
       self\<lparr>at_logger := val, at_algorithm := (at_algorithm self)\<lparr>alg_logger := val\<rparr>\<rparr>"
  by (simp add: AgentTrainer_set_logger_def AgentTrainer_logger_def set_logger_def Let_def)

end
